theory Spec2Isabelle
  imports Main "HOL-Library.Word"
begin

unbundle bit_operations_syntax

section \<open>Data model\<close>

text \<open>
  Opaque handles (\<open>GLFWwindow *\<close>, \<open>VkInstance\<close>, \<open>VkSurfaceKHR\<close>) are numbers;
  \<open>0\<close> is the null pointer, respectively \<open>VK_NULL_HANDLE\<close>.
\<close>

type_synonym handle = nat

text \<open>The private members of class \<open>Window\<close> (Window.h, lines 15-21).\<close>

record Window =
  mWindow :: handle
  mApplicationName :: string
  mInstance :: handle
  mSurface :: handle

text \<open>The member initialisers of Window.h: \<open>mWindow = nullptr\<close>, an empty
  \<open>std::string\<close>, and the value-initialised \<open>mInstance{}\<close>, \<open>mSurface{}\<close>.\<close>

definition Window_default :: Window where
  "Window_default =
     \<lparr>mWindow = 0, mApplicationName = [], mInstance = 0, mSurface = 0\<rparr>"

text \<open>\<open>std::string::c_str()\<close> read as a C string: the characters before the first NUL.\<close>

definition c_str :: "string \<Rightarrow> string" where
  "c_str s = takeWhile (\<lambda>c. c \<noteq> CHR 0x00) s"

record VkApplicationInfo =
  ai_sType :: int
  ai_pNext :: handle
  pApplicationName :: string
  applicationVersion :: "32 word"
  pEngineName :: string
  engineVersion :: "32 word"
  apiVersion :: "32 word"

record VkInstanceCreateInfo =
  ci_sType :: int
  ci_pNext :: handle
  ci_flags :: "32 word"
  pApplicationInfo :: VkApplicationInfo
  enabledLayerCount :: "32 word"
  enabledExtensionCount :: "32 word"
  ppEnabledExtensionNames :: "string list"

text \<open>The events the provider delivers to the three registered callbacks.\<close>

datatype event =
    WindowCloseEvent
  | KeyEvent int int int int
  | MouseButtonEvent int int int

text \<open>
  The arguments of a \<open>Logger::log\<close> call after the level and the format string.
  A \<open>char *\<close> passed for \<open>%s\<close> is \<open>None\<close> when it is the null pointer.
\<close>

datatype log_arg = ArgStr "string option" | ArgInt int | ArgUInt nat

text \<open>
  Every call the code makes on a collaborator (the windowing provider, the rendering
  API, the logging sink), with its arguments. A run of the code is observed as the
  list of these calls, in order.
\<close>

datatype call =
    GlfwInit
  | GlfwVulkanSupported
  | GlfwTerminate
  | GlfwWindowHint int int
  | GlfwCreateWindow int int string
  | GlfwGetRequiredInstanceExtensions
  | VkCreateInstance VkInstanceCreateInfo
  | VkEnumeratePhysicalDevices handle "nat option"
  | GlfwCreateWindowSurface handle handle
  | GlfwSetWindowUserPointer handle
  | GlfwSetWindowCloseCallback handle
  | GlfwSetKeyCallback handle
  | GlfwSetMouseButtonCallback handle
  | GlfwGetWindowUserPointer handle
  | GlfwWindowShouldClose handle
  | GlfwPollEvents
  | VkDestroySurfaceKHR handle handle
  | VkDestroyInstance handle
  | GlfwDestroyWindow handle
  | GlfwGetKeyName int int
  | Log nat string "log_arg list"

text \<open>
  The exception that leaves \<open>initVulkan\<close> and \<open>init\<close> uncaught when the array of devices
  cannot be allocated. A function that can throw returns \<open>Inl\<close> of the exception, or
  \<open>Inr\<close> of the value it returns.
\<close>

datatype exn = bad_alloc

section \<open>The collaborators\<close>

text \<open>
  The constants and the macro of the GLFW and Vulkan headers that Window.cpp uses.
  The headers are not part of the repository, so their values are parameters.
\<close>

record api_constants =
  GLFW_RESIZABLE :: int
  GLFW_FALSE :: int
  GLFW_CLIENT_API :: int
  GLFW_NO_API :: int
  GLFW_PRESS :: int
  GLFW_RELEASE :: int
  GLFW_REPEAT :: int
  GLFW_MOUSE_BUTTON_LEFT :: int
  GLFW_MOUSE_BUTTON_MIDDLE :: int
  GLFW_MOUSE_BUTTON_RIGHT :: int
  VK_SUCCESS :: int
  VK_STRUCTURE_TYPE_APPLICATION_INFO :: int
  VK_STRUCTURE_TYPE_INSTANCE_CREATE_INFO :: int
  VK_MAKE_API_VERSION :: "nat \<Rightarrow> nat \<Rightarrow> nat \<Rightarrow> nat \<Rightarrow> 32 word"
  VK_KHR_PORTABILITY_ENUMERATION_EXTENSION_NAME :: string
  VK_INSTANCE_CREATE_ENUMERATE_PORTABILITY_BIT_KHR :: "32 word"

text \<open>
  What the collaborators answer. Each field is the answer to the call of the same name:
  \<^item> \<open>glfwCreateWindow\<close> returns a window handle (\<open>0\<close> on failure);
  \<^item> \<open>glfwGetRequiredInstanceExtensions\<close> returns the array of names; its length is the
    count written through the pointer argument;
  \<^item> \<open>vkCreateInstance\<close> and \<open>glfwCreateWindowSurface\<close> get the address of a member
    as last argument: they return the result code and the value that member holds
    afterwards, given the value it held before;
  \<^item> \<open>vkEnumeratePhysicalDevices\<close> is called twice: with a null array
    (\<open>_count\<close>: the count afterwards) and with an array of that many elements
    (\<open>_fill\<close>: the count afterwards and the devices written);
  \<^item> \<open>devices_resize n\<close> tells whether the runtime can allocate the array of \<open>n\<close>
    devices (\<open>devices.resize(physicalDeviceCount)\<close>, line 126); if it cannot, \<open>resize\<close>
    throws \<open>std::bad_alloc\<close>;
  \<^item> \<open>glfwGetKeyName\<close> returns a name, or the null pointer;
  \<^item> \<open>pendingEvents k\<close> is what the \<open>k\<close>-th call of \<open>glfwPollEvents\<close> finds: the
    events it delivers, in order, and whether the close flag of the window is set
    during that call.
\<close>

record provider = api_constants +
  glfwInit :: bool
  glfwVulkanSupported :: bool
  glfwCreateWindow :: "int \<Rightarrow> int \<Rightarrow> string \<Rightarrow> handle"
  glfwGetRequiredInstanceExtensions :: "string list"
  vkCreateInstance :: "VkInstanceCreateInfo \<Rightarrow> handle \<Rightarrow> int \<times> handle"
  vkEnumeratePhysicalDevices_count :: "handle \<Rightarrow> 32 word"
  devices_resize :: "32 word \<Rightarrow> bool"
  vkEnumeratePhysicalDevices_fill :: "handle \<Rightarrow> 32 word \<Rightarrow> 32 word \<times> handle list"
  glfwCreateWindowSurface :: "handle \<Rightarrow> handle \<Rightarrow> handle \<Rightarrow> int \<times> handle"
  glfwGetKeyName :: "int \<Rightarrow> int \<Rightarrow> string option"
  pendingEvents :: "nat \<Rightarrow> event list \<times> bool"

text \<open>The state the provider keeps for the window: its close flag, and how many
  times events have been polled.\<close>

record world =
  closeFlag :: bool
  pollCount :: nat

section \<open>Window.cpp\<close>

subsection \<open>\<open>Window::initVulkan\<close> (lines 68-138)\<close>

text \<open>
  The descriptor passed to \<open>vkCreateInstance\<close>: \<open>mAppInfo\<close> (lines 71-78) and
  \<open>mCreateInfo\<close> as it is at line 111, with the required extensions of lines 98-104.
\<close>

definition mAppInfo :: "provider \<Rightarrow> Window \<Rightarrow> VkApplicationInfo" where
  "mAppInfo p w =
     \<lparr>ai_sType = VK_STRUCTURE_TYPE_APPLICATION_INFO p,
      ai_pNext = 0,
      pApplicationName = c_str (mApplicationName w),
      applicationVersion = VK_MAKE_API_VERSION p 0 0 0 1,
      pEngineName = ''Game Animations Programming'',
      engineVersion = VK_MAKE_API_VERSION p 0 1 0 0,
      apiVersion = VK_MAKE_API_VERSION p 0 1 1 0\<rparr>"

definition mCreateInfo :: "provider \<Rightarrow> Window \<Rightarrow> VkInstanceCreateInfo" where
  "mCreateInfo p w =
    (let extensions = glfwGetRequiredInstanceExtensions p;
         requiredExtensions =
           extensions @ [VK_KHR_PORTABILITY_ENUMERATION_EXTENSION_NAME p]
     in \<lparr>ci_sType = VK_STRUCTURE_TYPE_INSTANCE_CREATE_INFO p,
         ci_pNext = 0,
         ci_flags = 0 OR VK_INSTANCE_CREATE_ENUMERATE_PORTABILITY_BIT_KHR p,
         pApplicationInfo = mAppInfo p w,
         enabledLayerCount = 0,
         enabledExtensionCount = of_nat (length requiredExtensions),
         ppEnabledExtensionNames = requiredExtensions\<rparr>)"

definition initVulkan :: "provider \<Rightarrow> Window \<Rightarrow> (exn + bool) \<times> Window \<times> call list" where
  "initVulkan p w =
    (let extensions = glfwGetRequiredInstanceExtensions p;
         extensionCount = length extensions;
         t0 = [GlfwGetRequiredInstanceExtensions]
     in
     if extensionCount = 0 then
       (Inr False, w,
        t0 @ [Log 1 ''%s error: no Vulkan extensions found, need at least 'VK_KHR_surface'\<newline>''
                [ArgStr (Some ''initVulkan'')]])
     else
       let t1 = t0
              @ [Log 1 ''%s: Found %u Vulkan extensions\<newline>''
                   [ArgStr (Some ''initVulkan''), ArgUInt extensionCount]]
              @ map (\<lambda>e. Log 1 ''%s: %s\<newline>''
                          [ArgStr (Some ''initVulkan''), ArgStr (Some (c_str e))])
                  extensions;
           result = fst (vkCreateInstance p (mCreateInfo p w) (mInstance w));
           w1 = w\<lparr>mInstance := snd (vkCreateInstance p (mCreateInfo p w) (mInstance w))\<rparr>;
           t2 = t1 @ [VkCreateInstance (mCreateInfo p w)]
       in
       if result \<noteq> VK_SUCCESS p then
         (Inr False, w1,
          t2 @ [Log 1 ''%s: Could not create Vulkan instance (%i)\<newline>''
                  [ArgStr (Some ''initVulkan''), ArgInt result]])
       else
         let physicalDeviceCount = vkEnumeratePhysicalDevices_count p (mInstance w1);
             t3 = t2 @ [VkEnumeratePhysicalDevices (mInstance w1) None]
         in
         if physicalDeviceCount = 0 then
           (Inr False, w1,
            t3 @ [Log 1 ''%s: No Vulkan capable GPU found\<newline>''
                    [ArgStr (Some ''initVulkan'')]])
         else if \<not> devices_resize p physicalDeviceCount then
           (Inl bad_alloc, w1, t3)
         else
           let filled = vkEnumeratePhysicalDevices_fill p (mInstance w1) physicalDeviceCount;
               physicalDeviceCount' = fst filled;
               t4 = t3
                  @ [VkEnumeratePhysicalDevices (mInstance w1) (Some (unat physicalDeviceCount)),
                     Log 1 ''%s: Found %u physical device(s)\<newline>''
                       [ArgStr (Some ''initVulkan''), ArgUInt (unat physicalDeviceCount')]];
               created = glfwCreateWindowSurface p (mInstance w1) (mWindow w1) (mSurface w1);
               result' = fst created;
               w2 = w1\<lparr>mSurface := snd created\<rparr>;
               t5 = t4 @ [GlfwCreateWindowSurface (mInstance w1) (mWindow w1)]
           in
           if result' \<noteq> VK_SUCCESS p then
             (Inr False, w2,
              t5 @ [Log 1 ''%s: Could not create Vulkan surface\<newline>''
                      [ArgStr (Some ''initVulkan'')]])
           else (Inr True, w2, t5))"

subsection \<open>\<open>Window::init\<close> (lines 6-61)\<close>

text \<open>
  \<open>width\<close> and \<open>height\<close> are \<open>unsigned int\<close>; \<open>glfwCreateWindow\<close> takes \<open>int\<close>, so
  they are converted (\<open>sint\<close>). An exception of \<open>initVulkan\<close> is not caught: it leaves
  \<open>init\<close> at the call of line 33.
\<close>

definition init ::
  "provider \<Rightarrow> Window \<Rightarrow> 32 word \<Rightarrow> 32 word \<Rightarrow> string
     \<Rightarrow> (exn + bool) \<times> Window \<times> call list" where
  "init p w width height title =
    (if \<not> glfwInit p then
       (Inr False, w,
        [GlfwInit, Log 1 ''%s: glfwInit() error\<newline>'' [ArgStr (Some ''init'')]])
     else if \<not> glfwVulkanSupported p then
       (Inr False, w,
        [GlfwInit, GlfwVulkanSupported, GlfwTerminate,
         Log 1 ''%s: Vulkan is not supported\<newline>'' [ArgStr (Some ''init'')]])
     else
       let w1 = w\<lparr>mApplicationName := title\<rparr>;
           w2 = w1\<lparr>mWindow :=
                   glfwCreateWindow p (sint width) (sint height) (c_str (mApplicationName w1))\<rparr>;
           t2 = [GlfwInit, GlfwVulkanSupported,
                 GlfwWindowHint (GLFW_RESIZABLE p) (GLFW_FALSE p),
                 GlfwWindowHint (GLFW_CLIENT_API p) (GLFW_NO_API p),
                 GlfwCreateWindow (sint width) (sint height) (c_str (mApplicationName w1))]
       in
       if mWindow w2 = 0 then
         (Inr False, w2,
          t2 @ [Log 1 ''%s: Could not create window\<newline>'' [ArgStr (Some ''init'')],
                GlfwTerminate])
       else
         let r = initVulkan p w2;
             w3 = fst (snd r);
             t3 = t2 @ snd (snd r)
         in
         case fst r of
           Inl e \<Rightarrow> (Inl e, w3, t3)
         | Inr ok \<Rightarrow>
             if \<not> ok then
               (Inr False, w3,
                t3 @ [Log 1 ''%s: Could not init Vulkan\<newline>'' [ArgStr (Some ''init'')],
                      GlfwTerminate])
             else
               (Inr True, w3,
                t3 @ [GlfwSetWindowUserPointer (mWindow w3),
                      GlfwSetWindowCloseCallback (mWindow w3),
                      GlfwSetKeyCallback (mWindow w3),
                      GlfwSetMouseButtonCallback (mWindow w3),
                      Log 1 ''%s: Window successfully initialized\<newline>''
                        [ArgStr (Some ''init'')]]))"

subsection \<open>The event handlers (lines 63-66 and 157-211)\<close>

text \<open>
  A handler is a non-const member function: it gets the session and the provider's
  state, and returns both together with the calls it made.
\<close>

type_synonym state = "Window \<times> world"

definition handleWindowCloseEvents :: "state \<Rightarrow> state \<times> call list" where
  "handleWindowCloseEvents s =
     (s, [Log 1 ''%s: Window close event... bye!\<newline>''
            [ArgStr (Some ''handleWindowCloseEvents'')]])"

definition handleKeyEvents ::
  "provider \<Rightarrow> state \<Rightarrow> int \<Rightarrow> int \<Rightarrow> int \<Rightarrow> int \<Rightarrow> state \<times> call list" where
  "handleKeyEvents p s key scancode action mods =
    (let actionName =
           (if action = GLFW_PRESS p then ''pressed''
            else if action = GLFW_RELEASE p then ''released''
            else if action = GLFW_REPEAT p then ''repeated''
            else ''unknown'');
         keyName = glfwGetKeyName p key 0
     in (s, [GlfwGetKeyName key 0,
             Log 1 ''%s: key %s (key %i, scancode %i) %s\<newline>''
               [ArgStr (Some ''handleKeyEvents''), ArgStr keyName, ArgInt key,
                ArgInt scancode, ArgStr (Some (c_str actionName))]]))"

definition handleMouseButtonEvents ::
  "provider \<Rightarrow> state \<Rightarrow> int \<Rightarrow> int \<Rightarrow> int \<Rightarrow> state \<times> call list" where
  "handleMouseButtonEvents p s button action mods =
    (let actionName =
           (if action = GLFW_PRESS p then ''pressed''
            else if action = GLFW_RELEASE p then ''released''
            else ''unknown'');
         mouseButtonName =
           (if button = GLFW_MOUSE_BUTTON_LEFT p then ''left''
            else if button = GLFW_MOUSE_BUTTON_MIDDLE p then ''middle''
            else if button = GLFW_MOUSE_BUTTON_RIGHT p then ''right''
            else ''unknown'')
     in (s, [Log 1 ''%s: %s mouse button (%i) %s\<newline>''
               [ArgStr (Some ''handleMouseButtonEvents''), ArgStr (Some (c_str mouseButtonName)),
                ArgInt button, ArgStr (Some (c_str actionName))]]))"

subsection \<open>\<open>Window::mainLoop\<close> (lines 140-145)\<close>

text \<open>
  The three lambdas that \<open>init\<close> registers (lines 41-57): each fetches the session
  from the window's user pointer and calls the handler of the event.
\<close>

fun dispatch :: "provider \<Rightarrow> event \<Rightarrow> state \<Rightarrow> state \<times> call list" where
  "dispatch p WindowCloseEvent s =
     (let r = handleWindowCloseEvents s
      in (fst r, GlfwGetWindowUserPointer (mWindow (fst s)) # snd r))"
| "dispatch p (KeyEvent key scancode action mods) s =
     (let r = handleKeyEvents p s key scancode action mods
      in (fst r, GlfwGetWindowUserPointer (mWindow (fst s)) # snd r))"
| "dispatch p (MouseButtonEvent button action mods) s =
     (let r = handleMouseButtonEvents p s button action mods
      in (fst r, GlfwGetWindowUserPointer (mWindow (fst s)) # snd r))"

fun dispatch_all :: "provider \<Rightarrow> event list \<Rightarrow> state \<Rightarrow> state \<times> call list" where
  "dispatch_all p [] s = (s, [])"
| "dispatch_all p (e # es) s =
     (let r = dispatch p e s;
          r' = dispatch_all p es (fst r)
      in (fst r', snd r @ snd r'))"

text \<open>
  \<open>glfwPollEvents\<close>, for a window on which \<open>init\<close> has registered the callbacks: the
  provider takes the pending events of this poll, sets the close flag if it is
  requested, and runs the callbacks of the events in delivery order.
\<close>

definition glfwPollEvents :: "provider \<Rightarrow> state \<Rightarrow> state \<times> call list" where
  "glfwPollEvents p s =
    (let wd = snd s;
         pending = pendingEvents p (pollCount wd);
         wd' = wd\<lparr>closeFlag := closeFlag wd \<or> snd pending, pollCount := pollCount wd + 1\<rparr>;
         r = dispatch_all p (fst pending) (fst s, wd')
     in (fst r, GlfwPollEvents # snd r))"

definition glfwWindowShouldClose :: "state \<Rightarrow> bool \<times> call list" where
  "glfwWindowShouldClose s = (closeFlag (snd s), [GlfwWindowShouldClose (mWindow (fst s))])"

text \<open>The \<open>while\<close> loop may run forever: \<open>None\<close> is the loop that never ends.\<close>

partial_function (option) mainLoop_loop ::
  "provider \<Rightarrow> state \<Rightarrow> call list \<Rightarrow> (state \<times> call list) option" where
  "mainLoop_loop p s t =
    (if \<not> fst (glfwWindowShouldClose s)
     then mainLoop_loop p (fst (glfwPollEvents p s))
            (t @ snd (glfwWindowShouldClose s) @ snd (glfwPollEvents p s))
     else Some (s, t @ snd (glfwWindowShouldClose s)))"

declare mainLoop_loop.simps [code]

definition mainLoop :: "provider \<Rightarrow> state \<Rightarrow> (state \<times> call list) option" where
  "mainLoop p s = mainLoop_loop p s []"

subsection \<open>\<open>Window::cleanup\<close> (lines 147-155)\<close>

definition cleanup :: "Window \<Rightarrow> Window \<times> call list" where
  "cleanup w =
     (w, [Log 1 ''%s: Terminating Window\<newline>'' [ArgStr (Some ''cleanup'')],
          VkDestroySurfaceKHR (mInstance w) (mSurface w),
          VkDestroyInstance (mInstance w),
          GlfwDestroyWindow (mWindow w),
          GlfwTerminate])"


section \<open>Notions used in the statements\<close>

text \<open>The calls on the logging sink, as opposed to the calls on the provider and
  the rendering API.\<close>

definition is_log :: "call \<Rightarrow> bool" where
  "is_log c = (case c of Log _ _ _ \<Rightarrow> True | _ \<Rightarrow> False)"

text \<open>
  The session and the calls of \<open>init\<close> when it has made the call of
  \<open>glfwCreateWindow\<close> (lines 7-25), both checks before it having passed.
\<close>

definition init_session :: "provider \<Rightarrow> Window \<Rightarrow> 32 word \<Rightarrow> 32 word \<Rightarrow> string \<Rightarrow> Window" where
  "init_session p w width height title =
     w\<lparr>mApplicationName := title,
       mWindow := glfwCreateWindow p (sint width) (sint height) (c_str title)\<rparr>"

definition init_calls :: "provider \<Rightarrow> 32 word \<Rightarrow> 32 word \<Rightarrow> string \<Rightarrow> call list" where
  "init_calls p width height title =
     [GlfwInit, GlfwVulkanSupported,
      GlfwWindowHint (GLFW_RESIZABLE p) (GLFW_FALSE p),
      GlfwWindowHint (GLFW_CLIENT_API p) (GLFW_NO_API p),
      GlfwCreateWindow (sint width) (sint height) (c_str title)]"

text \<open>
  In \<open>initVulkan\<close>: whether the instance is created, so that line 117 is reached; the
  handle \<open>mInstance\<close> holds after line 111; the device count after line 118.
\<close>

definition instance_created :: "provider \<Rightarrow> Window \<Rightarrow> bool" where
  "instance_created p w =
     (glfwGetRequiredInstanceExtensions p \<noteq> []
      \<and> fst (vkCreateInstance p (mCreateInfo p w) (mInstance w)) = VK_SUCCESS p)"

definition created_instance :: "provider \<Rightarrow> Window \<Rightarrow> handle" where
  "created_instance p w = snd (vkCreateInstance p (mCreateInfo p w) (mInstance w))"

definition device_count :: "provider \<Rightarrow> Window \<Rightarrow> 32 word" where
  "device_count p w = vkEnumeratePhysicalDevices_count p (created_instance p w)"

text \<open>
  \<open>closed_after p wd k\<close>: the close flag is set once \<open>k\<close> more polls have been made
  from the provider state \<open>wd\<close>; \<open>world_after p wd k\<close> is the provider state then.
\<close>

definition closed_after :: "provider \<Rightarrow> world \<Rightarrow> nat \<Rightarrow> bool" where
  "closed_after p wd k = (closeFlag wd \<or> (\<exists>i<k. snd (pendingEvents p (pollCount wd + i))))"

definition world_after :: "provider \<Rightarrow> world \<Rightarrow> nat \<Rightarrow> world" where
  "world_after p wd k = wd\<lparr>closeFlag := closed_after p wd k, pollCount := pollCount wd + k\<rparr>"

text \<open>
  The calls of the \<open>i\<close>-th iteration of the loop of \<open>mainLoop\<close>: the test of the close
  flag, the poll, and what the callbacks of the events pending at that poll do.
\<close>

definition poll_calls :: "provider \<Rightarrow> Window \<Rightarrow> world \<Rightarrow> nat \<Rightarrow> call list" where
  "poll_calls p w wd i =
     [GlfwWindowShouldClose (mWindow w), GlfwPollEvents]
     @ concat (map (\<lambda>e. snd (dispatch p e (w, world_after p wd (Suc i))))
                 (fst (pendingEvents p (pollCount wd + i))))"

section \<open>A concrete provider\<close>

text \<open>
  A provider on which every step succeeds, with the values of \<open>glfw3.h\<close> and
  \<open>vulkan_core.h\<close> for the constants. It hands out the window handle 1, the instance
  handle 2 and the surface handle 3, reports one physical device, can allocate an
  array of up to 65536 devices, names only the key 65, and sets the close flag during
  the second poll. The theorems below are
  instantiated on it and on variants of it.
\<close>

definition demo_provider :: provider where
  "demo_provider =
     \<lparr>GLFW_RESIZABLE = 0x20003,
      GLFW_FALSE = 0,
      GLFW_CLIENT_API = 0x22001,
      GLFW_NO_API = 0,
      GLFW_PRESS = 1,
      GLFW_RELEASE = 0,
      GLFW_REPEAT = 2,
      GLFW_MOUSE_BUTTON_LEFT = 0,
      GLFW_MOUSE_BUTTON_MIDDLE = 2,
      GLFW_MOUSE_BUTTON_RIGHT = 1,
      VK_SUCCESS = 0,
      VK_STRUCTURE_TYPE_APPLICATION_INFO = 0,
      VK_STRUCTURE_TYPE_INSTANCE_CREATE_INFO = 1,
      VK_MAKE_API_VERSION =
        (\<lambda>variant major minor patch.
           push_bit 29 (of_nat variant) OR push_bit 22 (of_nat major)
           OR push_bit 12 (of_nat minor) OR of_nat patch),
      VK_KHR_PORTABILITY_ENUMERATION_EXTENSION_NAME = ''VK_KHR_portability_enumeration'',
      VK_INSTANCE_CREATE_ENUMERATE_PORTABILITY_BIT_KHR = 1,
      glfwInit = True,
      glfwVulkanSupported = True,
      glfwCreateWindow = (\<lambda>width height title. 1),
      glfwGetRequiredInstanceExtensions = [''VK_KHR_surface'', ''VK_KHR_xcb_surface''],
      vkCreateInstance = (\<lambda>info old. (0, 2)),
      vkEnumeratePhysicalDevices_count = (\<lambda>inst. 1),
      devices_resize = (\<lambda>n. n \<le> 0x10000),
      vkEnumeratePhysicalDevices_fill = (\<lambda>inst n. (1, [4])),
      glfwCreateWindowSurface = (\<lambda>inst win old. (0, 3)),
      glfwGetKeyName = (\<lambda>key scancode. if key = 65 then Some ''a'' else None),
      pendingEvents =
        (\<lambda>k. if k = 0 then ([KeyEvent 65 38 1 0], False)
             else if k = 1 then ([MouseButtonEvent 0 1 0, WindowCloseEvent], True)
             else ([], False))\<rparr>"

text \<open>The session \<open>init\<close> leaves on \<open>demo_provider\<close>, and a provider state with the
  close flag not set.\<close>

definition demo_window :: Window where
  "demo_window = \<lparr>mWindow = 1, mApplicationName = ''demo'', mInstance = 2, mSurface = 3\<rparr>"

definition demo_world :: world where
  "demo_world = \<lparr>closeFlag = False, pollCount = 0\<rparr>"

section \<open>Auxiliary facts\<close>

lemma c_str_literals:
  "c_str ''unknown'' = ''unknown''" "c_str ''pressed'' = ''pressed''"
  "c_str ''released'' = ''released''" "c_str ''repeated'' = ''repeated''"
  "c_str ''left'' = ''left''" "c_str ''middle'' = ''middle''" "c_str ''right'' = ''right''"
  by (simp_all add: c_str_def)

lemma initVulkan_keeps:
  "mWindow (fst (snd (initVulkan p w))) = mWindow w"
  "mApplicationName (fst (snd (initVulkan p w))) = mApplicationName w"
  by (simp_all add: initVulkan_def Let_def)

lemma dispatch_state: "fst (dispatch p e s) = s"
  by (cases e) (simp_all add: handleWindowCloseEvents_def handleKeyEvents_def
      handleMouseButtonEvents_def Let_def)

lemma dispatch_all_eq:
  "dispatch_all p es s = (s, concat (map (\<lambda>e. snd (dispatch p e s)) es))"
  by (induction es) (simp_all add: Let_def dispatch_state)

lemma closed_after_0: "closed_after p wd 0 = closeFlag wd"
  by (simp add: closed_after_def)

lemma world_after_0: "world_after p wd 0 = wd"
  by (simp add: world_after_def closed_after_0)

lemma closed_after_Suc:
  "closed_after p (world_after p wd (Suc 0)) k = closed_after p wd (Suc k)"
  apply (simp add: closed_after_def world_after_def)
  apply (auto simp: less_Suc_eq_0_disj)
  done

lemma world_after_Suc:
  "world_after p (world_after p wd (Suc 0)) k = world_after p wd (Suc k)"
  using closed_after_Suc[of p wd k]
  by (simp add: world_after_def)

lemma glfwPollEvents_eq:
  "glfwPollEvents p (w, wd) =
     ((w, world_after p wd (Suc 0)),
      GlfwPollEvents # concat (map (\<lambda>e. snd (dispatch p e (w, world_after p wd (Suc 0))))
                                 (fst (pendingEvents p (pollCount wd)))))"
  by (simp add: glfwPollEvents_def Let_def dispatch_all_eq world_after_def closed_after_def)

lemma poll_calls_shift:
  "poll_calls p w (world_after p wd (Suc 0)) i = poll_calls p w wd (Suc i)"
  using world_after_Suc[of p wd "Suc i"]
  by (simp add: poll_calls_def) (simp add: world_after_def)

lemma poll_calls_shift_fun:
  "poll_calls p w (world_after p wd (Suc 0)) = (\<lambda>i. poll_calls p w wd (Suc i))"
  by (rule ext) (rule poll_calls_shift)

lemma loop_returns:
  "closed_after p wd n \<Longrightarrow> (\<forall>k<n. \<not> closed_after p wd k) \<Longrightarrow>
   mainLoop_loop p (w, wd) t =
     Some ((w, world_after p wd n),
           t @ concat (map (poll_calls p w wd) [0..<n]) @ [GlfwWindowShouldClose (mWindow w)])"
proof (induction n arbitrary: wd t)
  case 0
  then have "closeFlag wd" by (simp add: closed_after_0)
  then show ?case
    by (subst mainLoop_loop.simps) (simp add: glfwWindowShouldClose_def world_after_0)
next
  case (Suc n)
  let ?wd = "world_after p wd (Suc 0)"
  from Suc.prems(2) have open0: "\<not> closeFlag wd"
    using closed_after_0 by blast
  have a: "closed_after p ?wd n"
    using Suc.prems(1) by (simp add: closed_after_Suc)
  have b: "\<forall>k<n. \<not> closed_after p ?wd k"
    using Suc.prems(2) by (simp add: closed_after_Suc)
  have upt: "[0..<Suc n] = 0 # map Suc [0..<n]"
    by (simp only: map_Suc_upt) (rule upt_conv_Cons, simp)
  have first: "poll_calls p w wd 0 = GlfwWindowShouldClose (mWindow w) # snd (glfwPollEvents p (w, wd))"
    by (simp add: poll_calls_def glfwPollEvents_eq)
  have step: "mainLoop_loop p (w, wd) t =
      mainLoop_loop p (w, ?wd) (t @ poll_calls p w wd 0)"
    using open0
    by (subst mainLoop_loop.simps) (simp add: glfwWindowShouldClose_def first, simp add: glfwPollEvents_eq)
  show ?case
    unfolding step Suc.IH[OF a b] upt
    by (simp add: world_after_Suc poll_calls_shift_fun comp_def)
qed

lemma loop_some_closed:
  assumes "mainLoop_loop p s t = Some r"
  shows "\<exists>k. closed_after p (snd s) k"
proof (rule mainLoop_loop.raw_induct
         [where P = "\<lambda>p s t r. \<exists>k. closed_after p (snd s) k", OF _ assms])
  fix loop :: "provider \<Rightarrow> state \<Rightarrow> call list \<Rightarrow> (state \<times> call list) option"
  fix p s t r
  assume IH: "\<And>p s t r. loop p s t = Some r \<Longrightarrow> \<exists>k. closed_after p (snd s) k"
  assume body: "(if \<not> fst (glfwWindowShouldClose s)
      then loop p (fst (glfwPollEvents p s))
            (t @ snd (glfwWindowShouldClose s) @ snd (glfwPollEvents p s))
      else Some (s, t @ snd (glfwWindowShouldClose s))) = Some r"
  show "\<exists>k. closed_after p (snd s) k"
  proof (cases "closeFlag (snd s)")
    case True
    then have "closed_after p (snd s) 0" by (simp add: closed_after_0)
    then show ?thesis ..
  next
    case False
    with body have "loop p (fst (glfwPollEvents p s))
            (t @ snd (glfwWindowShouldClose s) @ snd (glfwPollEvents p s)) = Some r"
      by (simp add: glfwWindowShouldClose_def)
    from IH[OF this] obtain k where "closed_after p (snd (fst (glfwPollEvents p s))) k" ..
    then have "closed_after p (snd s) (Suc k)"
      using glfwPollEvents_eq[of p "fst s" "snd s"] by (simp add: closed_after_Suc)
    then show ?thesis ..
  qed
qed

lemma initVulkan_calls:
  "GlfwTerminate \<notin> set (snd (snd (initVulkan p w)))"
  "GlfwSetWindowUserPointer h \<notin> set (snd (snd (initVulkan p w)))"
  "GlfwSetWindowCloseCallback h \<notin> set (snd (snd (initVulkan p w)))"
  "GlfwSetKeyCallback h \<notin> set (snd (snd (initVulkan p w)))"
  "GlfwSetMouseButtonCallback h \<notin> set (snd (snd (initVulkan p w)))"
  "Log 1 m [ArgStr (Some ''init'')] \<notin> set (snd (snd (initVulkan p w)))"
  "VkDestroyInstance h \<notin> set (snd (snd (initVulkan p w)))"
  "VkDestroySurfaceKHR h h' \<notin> set (snd (snd (initVulkan p w)))"
  "GlfwDestroyWindow h \<notin> set (snd (snd (initVulkan p w)))"
  by (auto simp add: initVulkan_def Let_def)

lemma initVulkan_surface_call:
  "fst (initVulkan p w) = Inr True \<Longrightarrow>
   GlfwCreateWindowSurface (mInstance (fst (snd (initVulkan p w)))) (mWindow w)
     \<in> set (snd (snd (initVulkan p w)))"
  by (simp add: initVulkan_def Let_def split: if_splits)

lemma initVulkan_result:
  "fst (initVulkan p w) =
     (if \<not> instance_created p w then Inr False
      else if device_count p w = 0 then Inr False
      else if \<not> devices_resize p (device_count p w) then Inl bad_alloc
      else Inr (fst (glfwCreateWindowSurface p (created_instance p w) (mWindow w) (mSurface w))
                  = VK_SUCCESS p))"
  by (simp add: initVulkan_def Let_def instance_created_def created_instance_def
      device_count_def)

lemma init_unfold:
  "glfwInit p \<Longrightarrow> glfwVulkanSupported p \<Longrightarrow>
   init p w width height title =
     (if mWindow (init_session p w width height title) = 0
      then (Inr False, init_session p w width height title,
            init_calls p width height title
            @ [Log 1 ''%s: Could not create window\<newline>'' [ArgStr (Some ''init'')],
               GlfwTerminate])
      else case fst (initVulkan p (init_session p w width height title)) of
             Inl e \<Rightarrow> (Inl e, fst (snd (initVulkan p (init_session p w width height title))),
                       init_calls p width height title
                       @ snd (snd (initVulkan p (init_session p w width height title))))
           | Inr ok \<Rightarrow>
               if \<not> ok
               then (Inr False, fst (snd (initVulkan p (init_session p w width height title))),
                     init_calls p width height title
                     @ snd (snd (initVulkan p (init_session p w width height title)))
                     @ [Log 1 ''%s: Could not init Vulkan\<newline>'' [ArgStr (Some ''init'')],
                        GlfwTerminate])
               else (Inr True, fst (snd (initVulkan p (init_session p w width height title))),
                     init_calls p width height title
                     @ snd (snd (initVulkan p (init_session p w width height title)))
                     @ [GlfwSetWindowUserPointer (mWindow (init_session p w width height title)),
                        GlfwSetWindowCloseCallback (mWindow (init_session p w width height title)),
                        GlfwSetKeyCallback (mWindow (init_session p w width height title)),
                        GlfwSetMouseButtonCallback (mWindow (init_session p w width height title)),
                        Log 1 ''%s: Window successfully initialized\<newline>''
                          [ArgStr (Some ''init'')]]))"
  by (simp add: init_def Let_def init_session_def init_calls_def initVulkan_keeps
      split: sum.splits)

lemma init_calls_simps:
  "GlfwTerminate \<notin> set (init_calls p width height title)"
  "GlfwSetWindowUserPointer h \<notin> set (init_calls p width height title)"
  "GlfwSetWindowCloseCallback h \<notin> set (init_calls p width height title)"
  "GlfwSetKeyCallback h \<notin> set (init_calls p width height title)"
  "GlfwSetMouseButtonCallback h \<notin> set (init_calls p width height title)"
  "Log 1 m [ArgStr (Some ''init'')] \<notin> set (init_calls p width height title)"
  "VkDestroyInstance h \<notin> set (init_calls p width height title)"
  "VkDestroySurfaceKHR h h' \<notin> set (init_calls p width height title)"
  "GlfwDestroyWindow h \<notin> set (init_calls p width height title)"
  by (simp_all add: init_calls_def)

lemma init_no_destroy:
  "VkDestroyInstance h \<notin> set (snd (snd (init p w width height title)))
   \<and> VkDestroySurfaceKHR h h' \<notin> set (snd (snd (init p w width height title)))
   \<and> GlfwDestroyWindow h \<notin> set (snd (snd (init p w width height title)))"
  apply (cases "glfwInit p")
   apply (cases "glfwVulkanSupported p")
    apply (simp add: init_unfold init_calls_simps initVulkan_calls split: sum.splits if_splits)
   apply (simp add: init_def)
  apply (simp add: init_def)
  done

lemma init_failed_no_registration:
  "fst (init p w width height title) \<noteq> Inr True \<Longrightarrow>
     GlfwSetWindowUserPointer h \<notin> set (snd (snd (init p w width height title)))
     \<and> GlfwSetWindowCloseCallback h \<notin> set (snd (snd (init p w width height title)))
     \<and> GlfwSetKeyCallback h \<notin> set (snd (snd (init p w width height title)))
     \<and> GlfwSetMouseButtonCallback h \<notin> set (snd (snd (init p w width height title)))"
  apply (cases "glfwInit p")
   apply (cases "glfwVulkanSupported p")
    apply (simp add: init_unfold init_calls_simps initVulkan_calls split: sum.splits if_splits)
   apply (simp add: init_def)
  apply (simp add: init_def)
  done

lemmas demo_defs = demo_provider_def demo_window_def demo_world_def Window_default_def

lemma init_demo:
  "fst (init demo_provider Window_default 800 600 ''demo'') = Inr True"
  "fst (snd (init demo_provider Window_default 800 600 ''demo'')) = demo_window"
  by (simp_all add: init_def initVulkan_def Let_def demo_defs c_str_def)

lemmas enum_defs = initVulkan_def Let_def instance_created_def created_instance_def
  device_count_def

lemma mCreateInfo_enumeration:
  "mCreateInfo (p\<lparr>vkEnumeratePhysicalDevices_count := c\<rparr>) w = mCreateInfo p w"
  "mCreateInfo (p\<lparr>vkEnumeratePhysicalDevices_fill := f\<rparr>) w = mCreateInfo p w"
  by (simp_all add: mCreateInfo_def mAppInfo_def)

section \<open>The failure paths of \<open>init\<close>\<close>

text \<open>
  Claim C1, as amended. \<open>init\<close> returns failure on each of its four causes, and only
  succeeds when none of them occurs:
  \<^item> \<open>glfwInit\<close> fails: it logs the diagnostic, makes no other call, and leaves the
    session as it was;
  \<^item> Vulkan is not supported: it calls \<open>glfwTerminate\<close> once, then logs the diagnostic,
    and leaves the session as it was;
  \<^item> no window is created: it logs the diagnostic and then calls \<open>glfwTerminate\<close>, once
    and last; the session holds the title and a null window handle, and the instance
    and surface handles it had;
  \<^item> \<open>initVulkan\<close> returns failure: after the calls of \<open>initVulkan\<close> it logs the diagnostic
    and then calls \<open>glfwTerminate\<close>, once and last; the session is the one \<open>initVulkan\<close>
    left, with the window handle that was created.

  \<open>initVulkan\<close> returns failure when no extension is required, the instance is not
  created, no device is found, or the surface is not created. When the array of
  devices cannot be allocated, \<open>initVulkan\<close> throws and so does \<open>init\<close>: there is then
  no diagnostic of \<open>init\<close> and no call of \<open>glfwTerminate\<close>. Unless \<open>init\<close> succeeds, it
  registers no user pointer and no callback. On no path does \<open>init\<close> destroy an
  instance, a surface or a window.
\<close>

theorem init_failure_paths:
  "(\<not> glfwInit p \<longrightarrow>
      init p w width height title =
        (Inr False, w,
         [GlfwInit, Log 1 ''%s: glfwInit() error\<newline>'' [ArgStr (Some ''init'')]]))
   \<and> (glfwInit p \<and> \<not> glfwVulkanSupported p \<longrightarrow>
      init p w width height title =
        (Inr False, w,
         [GlfwInit, GlfwVulkanSupported, GlfwTerminate,
          Log 1 ''%s: Vulkan is not supported\<newline>'' [ArgStr (Some ''init'')]]))
   \<and> (glfwInit p \<and> glfwVulkanSupported p
        \<and> glfwCreateWindow p (sint width) (sint height) (c_str title) = 0 \<longrightarrow>
      init p w width height title =
        (Inr False, w\<lparr>mApplicationName := title, mWindow := 0\<rparr>,
         init_calls p width height title
         @ [Log 1 ''%s: Could not create window\<newline>'' [ArgStr (Some ''init'')],
            GlfwTerminate])
      \<and> count_list (snd (snd (init p w width height title))) GlfwTerminate = 1)
   \<and> (glfwInit p \<and> glfwVulkanSupported p
        \<and> glfwCreateWindow p (sint width) (sint height) (c_str title) \<noteq> 0
        \<and> fst (initVulkan p (init_session p w width height title)) = Inr False \<longrightarrow>
      init p w width height title =
        (Inr False, fst (snd (initVulkan p (init_session p w width height title))),
         init_calls p width height title
         @ snd (snd (initVulkan p (init_session p w width height title)))
         @ [Log 1 ''%s: Could not init Vulkan\<newline>'' [ArgStr (Some ''init'')],
            GlfwTerminate])
      \<and> count_list (snd (snd (init p w width height title))) GlfwTerminate = 1
      \<and> mWindow (fst (snd (init p w width height title)))
          = glfwCreateWindow p (sint width) (sint height) (c_str title))
   \<and> (glfwInit p \<and> glfwVulkanSupported p
        \<and> glfwCreateWindow p (sint width) (sint height) (c_str title) \<noteq> 0
        \<and> fst (initVulkan p (init_session p w width height title)) = Inl e \<longrightarrow>
      init p w width height title =
        (Inl e, fst (snd (initVulkan p (init_session p w width height title))),
         init_calls p width height title
         @ snd (snd (initVulkan p (init_session p w width height title))))
      \<and> GlfwTerminate \<notin> set (snd (snd (init p w width height title)))
      \<and> Log 1 m [ArgStr (Some ''init'')] \<notin> set (snd (snd (init p w width height title))))
   \<and> fst (initVulkan p v) =
       (if \<not> instance_created p v then Inr False
        else if device_count p v = 0 then Inr False
        else if \<not> devices_resize p (device_count p v) then Inl bad_alloc
        else Inr (fst (glfwCreateWindowSurface p (created_instance p v) (mWindow v) (mSurface v))
                    = VK_SUCCESS p))
   \<and> (fst (init p w width height title) = Inr True) =
       (glfwInit p \<and> glfwVulkanSupported p
        \<and> glfwCreateWindow p (sint width) (sint height) (c_str title) \<noteq> 0
        \<and> fst (initVulkan p (init_session p w width height title)) = Inr True)
   \<and> (fst (init p w width height title) \<noteq> Inr True \<longrightarrow>
        GlfwSetWindowUserPointer h \<notin> set (snd (snd (init p w width height title)))
        \<and> GlfwSetWindowCloseCallback h \<notin> set (snd (snd (init p w width height title)))
        \<and> GlfwSetKeyCallback h \<notin> set (snd (snd (init p w width height title)))
        \<and> GlfwSetMouseButtonCallback h \<notin> set (snd (snd (init p w width height title))))
   \<and> VkDestroyInstance h \<notin> set (snd (snd (init p w width height title)))
   \<and> VkDestroySurfaceKHR h h' \<notin> set (snd (snd (init p w width height title)))
   \<and> GlfwDestroyWindow h \<notin> set (snd (snd (init p w width height title)))"
  apply (intro conjI impI)
  subgoal by (simp add: init_def)
  subgoal by (simp add: init_def)
  subgoal by (simp add: init_unfold init_session_def)
  subgoal by (simp add: init_unfold init_session_def init_calls_def)
  subgoal by (simp add: init_unfold init_session_def)
  subgoal by (simp add: init_unfold init_session_def count_list_0_iff
        init_calls_simps initVulkan_calls)
  subgoal by (simp add: init_unfold initVulkan_keeps) (simp add: init_session_def)
  subgoal by (simp add: init_unfold init_session_def)
  subgoal by (simp add: init_unfold init_session_def init_calls_simps initVulkan_calls)
  subgoal
    using initVulkan_calls(6) [of m p "init_session p w width height title"]
      init_calls_simps(6) [of m p width height title]
    by (simp add: init_unfold init_session_def)
  subgoal by (rule initVulkan_result)
  subgoal
    apply (cases "glfwInit p")
     apply (cases "glfwVulkanSupported p")
      apply (simp add: init_unfold split: sum.splits)
      apply (simp add: init_session_def)
     apply (simp add: init_def)
    apply (simp add: init_def)
    done
  subgoal using init_failed_no_registration by blast
  subgoal using init_failed_no_registration by blast
  subgoal using init_failed_no_registration by blast
  subgoal using init_failed_no_registration by blast
  subgoal using init_no_destroy by blast
  subgoal using init_no_destroy by blast
  subgoal using init_no_destroy by blast
  done

text \<open>
  The theorem on \<open>demo_provider\<close> with a failing \<open>glfwInit\<close>, without Vulkan support,
  without a window, without a physical device, and with 4294967295 devices, for which
  the array cannot be allocated.
\<close>

theorem init_failure_paths_witness:
  "init (demo_provider\<lparr>glfwInit := False\<rparr>) Window_default 800 600 ''demo'' =
     (Inr False, Window_default,
      [GlfwInit, Log 1 ''%s: glfwInit() error\<newline>'' [ArgStr (Some ''init'')]])
   \<and> init (demo_provider\<lparr>glfwVulkanSupported := False\<rparr>) Window_default 800 600 ''demo'' =
     (Inr False, Window_default,
      [GlfwInit, GlfwVulkanSupported, GlfwTerminate,
       Log 1 ''%s: Vulkan is not supported\<newline>'' [ArgStr (Some ''init'')]])
   \<and> init (demo_provider\<lparr>glfwCreateWindow := (\<lambda>width height title. 0)\<rparr>)
        Window_default 800 600 ''demo'' =
     (Inr False, Window_default\<lparr>mApplicationName := ''demo'', mWindow := 0\<rparr>,
      [GlfwInit, GlfwVulkanSupported, GlfwWindowHint 0x20003 0, GlfwWindowHint 0x22001 0,
       GlfwCreateWindow 800 600 ''demo'',
       Log 1 ''%s: Could not create window\<newline>'' [ArgStr (Some ''init'')],
       GlfwTerminate])
   \<and> fst (init (demo_provider\<lparr>vkEnumeratePhysicalDevices_count := (\<lambda>inst. 0)\<rparr>)
            Window_default 800 600 ''demo'') = Inr False
   \<and> count_list
        (snd (snd (init (demo_provider\<lparr>vkEnumeratePhysicalDevices_count := (\<lambda>inst. 0)\<rparr>)
                     Window_default 800 600 ''demo''))) GlfwTerminate = 1
   \<and> GlfwSetKeyCallback 1
        \<notin> set (snd (snd (init (demo_provider\<lparr>vkEnumeratePhysicalDevices_count := (\<lambda>inst. 0)\<rparr>)
                           Window_default 800 600 ''demo'')))
   \<and> fst (init (demo_provider\<lparr>vkEnumeratePhysicalDevices_count := (\<lambda>inst. 0xFFFFFFFF)\<rparr>)
            Window_default 800 600 ''demo'') = Inl bad_alloc
   \<and> GlfwTerminate
        \<notin> set (snd (snd (init (demo_provider\<lparr>vkEnumeratePhysicalDevices_count :=
                                              (\<lambda>inst. 0xFFFFFFFF)\<rparr>)
                           Window_default 800 600 ''demo'')))"
proof -
  let ?down = "demo_provider\<lparr>glfwInit := False\<rparr>"
  let ?unsupported = "demo_provider\<lparr>glfwVulkanSupported := False\<rparr>"
  let ?no_window = "demo_provider\<lparr>glfwCreateWindow := (\<lambda>width height title. 0)\<rparr>"
  let ?no_gpu = "demo_provider\<lparr>vkEnumeratePhysicalDevices_count := (\<lambda>inst. 0)\<rparr>"
  let ?huge = "demo_provider\<lparr>vkEnumeratePhysicalDevices_count := (\<lambda>inst. 0xFFFFFFFF)\<rparr>"
  have a: "\<not> glfwInit ?down"
    by simp
  have b: "glfwInit ?unsupported \<and> \<not> glfwVulkanSupported ?unsupported"
    by (simp add: demo_defs)
  have c: "glfwInit ?no_window \<and> glfwVulkanSupported ?no_window
      \<and> glfwCreateWindow ?no_window (sint (800 :: 32 word)) (sint (600 :: 32 word))
          (c_str ''demo'') = 0"
    by (simp add: demo_defs)
  have d: "glfwInit ?no_gpu \<and> glfwVulkanSupported ?no_gpu
      \<and> glfwCreateWindow ?no_gpu (sint (800 :: 32 word)) (sint (600 :: 32 word))
          (c_str ''demo'') \<noteq> 0
      \<and> fst (initVulkan ?no_gpu (init_session ?no_gpu Window_default 800 600 ''demo''))
          = Inr False"
    by (simp add: demo_defs initVulkan_def Let_def)
  have e: "glfwInit ?huge \<and> glfwVulkanSupported ?huge
      \<and> glfwCreateWindow ?huge (sint (800 :: 32 word)) (sint (600 :: 32 word))
          (c_str ''demo'') \<noteq> 0
      \<and> fst (initVulkan ?huge (init_session ?huge Window_default 800 600 ''demo''))
          = Inl bad_alloc"
    by (simp add: demo_defs initVulkan_def Let_def)
  have calls: "init_calls ?no_window 800 600 ''demo'' =
      [GlfwInit, GlfwVulkanSupported, GlfwWindowHint 0x20003 0, GlfwWindowHint 0x22001 0,
       GlfwCreateWindow 800 600 ''demo'']"
    by (simp add: init_calls_def demo_defs c_str_def)
  note A = init_failure_paths
    [where p = "?down" and w = Window_default and width = 800 and height = 600
       and title = "''demo''" and e = bad_alloc and m = "[]" and v = Window_default
       and h = 1 and h' = 1]
  note B = init_failure_paths
    [where p = "?unsupported" and w = Window_default and width = 800 and height = 600
       and title = "''demo''" and e = bad_alloc and m = "[]" and v = Window_default
       and h = 1 and h' = 1]
  note C = init_failure_paths
    [where p = "?no_window" and w = Window_default and width = 800 and height = 600
       and title = "''demo''" and e = bad_alloc and m = "[]" and v = Window_default
       and h = 1 and h' = 1]
  note D = init_failure_paths
    [where p = "?no_gpu" and w = Window_default and width = 800 and height = 600
       and title = "''demo''" and e = bad_alloc and m = "[]" and v = Window_default
       and h = 1 and h' = 1]
  note E = init_failure_paths
    [where p = "?huge" and w = Window_default and width = 800 and height = 600
       and title = "''demo''" and e = bad_alloc and m = "[]" and v = Window_default
       and h = 1 and h' = 1]
  have 1: "init ?down Window_default 800 600 ''demo'' =
     (Inr False, Window_default,
      [GlfwInit, Log 1 ''%s: glfwInit() error\<newline>'' [ArgStr (Some ''init'')]])"
    using A a by blast
  have 2: "init ?unsupported Window_default 800 600 ''demo'' =
     (Inr False, Window_default,
      [GlfwInit, GlfwVulkanSupported, GlfwTerminate,
       Log 1 ''%s: Vulkan is not supported\<newline>'' [ArgStr (Some ''init'')]])"
    using B b by blast
  have 3: "init ?no_window Window_default 800 600 ''demo'' =
     (Inr False, Window_default\<lparr>mApplicationName := ''demo'', mWindow := 0\<rparr>,
      init_calls ?no_window 800 600 ''demo''
      @ [Log 1 ''%s: Could not create window\<newline>'' [ArgStr (Some ''init'')],
         GlfwTerminate])"
    using C c by blast
  have 4: "fst (init ?no_gpu Window_default 800 600 ''demo'') = Inr False"
    using D [THEN conjunct2, THEN conjunct2, THEN conjunct2, THEN conjunct1, rule_format, OF d]
    by simp
  then have failed: "fst (init ?no_gpu Window_default 800 600 ''demo'') \<noteq> Inr True"
    by simp
  have 5: "count_list (snd (snd (init ?no_gpu Window_default 800 600 ''demo''))) GlfwTerminate = 1"
    using D d by blast
  have 6: "GlfwSetKeyCallback 1 \<notin> set (snd (snd (init ?no_gpu Window_default 800 600 ''demo'')))"
    using D failed by blast
  have 7: "fst (init ?huge Window_default 800 600 ''demo'') = Inl bad_alloc"
    using E [THEN conjunct2, THEN conjunct2, THEN conjunct2, THEN conjunct2, THEN conjunct1,
             rule_format, OF e]
    by simp
  have 8: "GlfwTerminate \<notin> set (snd (snd (init ?huge Window_default 800 600 ''demo'')))"
    using E e by blast
  show ?thesis
    using 1 2 3 4 5 6 7 8 by (simp add: calls)
qed

text \<open>
  Claim C1 as stated fails. On the provider without a physical device \<open>init\<close> returns
  failure from the default session, and afterwards the session still holds the window
  handle 1 and the instance handle 2, and the instance was never destroyed.
\<close>

theorem init_failure_keeps_handles_counterexample:
  "fst (init (demo_provider\<lparr>vkEnumeratePhysicalDevices_count := (\<lambda>inst. 0)\<rparr>)
          Window_default 800 600 ''demo'') = Inr False
   \<and> mWindow (fst (snd (init (demo_provider\<lparr>vkEnumeratePhysicalDevices_count := (\<lambda>inst. 0)\<rparr>)
          Window_default 800 600 ''demo''))) = 1
   \<and> mInstance (fst (snd (init (demo_provider\<lparr>vkEnumeratePhysicalDevices_count := (\<lambda>inst. 0)\<rparr>)
          Window_default 800 600 ''demo''))) = 2
   \<and> VkDestroyInstance 2
       \<notin> set (snd (snd (init (demo_provider\<lparr>vkEnumeratePhysicalDevices_count := (\<lambda>inst. 0)\<rparr>)
          Window_default 800 600 ''demo'')))"
  by (simp add: init_def initVulkan_def Let_def demo_defs)

section \<open>The enumeration of physical devices\<close>

text \<open>
  Claim C2, as amended. \<open>initVulkan\<close> enumerates the devices exactly when the instance
  was created, on that instance. Then
  \<^item> with a count of zero it logs that no capable GPU was found, as its last call, and
    returns failure; the session holds the instance and nothing else is changed;
  \<^item> with a nonzero count for which the array of devices cannot be allocated, it
    throws right after the first enumeration call; no surface is created;
  \<^item> with a nonzero count for which the array is allocated, it enumerates again into
    the array, logs the count, and its result is that of the surface creation; the
    session holds the instance and the surface and no device.

  The result and the session do not depend on the devices the provider writes, and
  they are the same for any two nonzero counts for which the array is allocated.
\<close>

theorem initVulkan_device_enumeration:
  "(VkEnumeratePhysicalDevices h None \<in> set (snd (snd (initVulkan p w))))
     = (instance_created p w \<and> h = created_instance p w)
   \<and> (instance_created p w \<and> device_count p w = 0 \<longrightarrow>
        fst (initVulkan p w) = Inr False
        \<and> fst (snd (initVulkan p w)) = w\<lparr>mInstance := created_instance p w\<rparr>
        \<and> last (snd (snd (initVulkan p w)))
            = Log 1 ''%s: No Vulkan capable GPU found\<newline>'' [ArgStr (Some ''initVulkan'')]
        \<and> VkEnumeratePhysicalDevices h (Some n) \<notin> set (snd (snd (initVulkan p w)))
        \<and> GlfwCreateWindowSurface h h' \<notin> set (snd (snd (initVulkan p w))))
   \<and> (instance_created p w \<and> device_count p w \<noteq> 0
        \<and> \<not> devices_resize p (device_count p w) \<longrightarrow>
        fst (initVulkan p w) = Inl bad_alloc
        \<and> fst (snd (initVulkan p w)) = w\<lparr>mInstance := created_instance p w\<rparr>
        \<and> last (snd (snd (initVulkan p w)))
            = VkEnumeratePhysicalDevices (created_instance p w) None
        \<and> VkEnumeratePhysicalDevices h (Some n) \<notin> set (snd (snd (initVulkan p w)))
        \<and> GlfwCreateWindowSurface h h' \<notin> set (snd (snd (initVulkan p w))))
   \<and> (instance_created p w \<and> device_count p w \<noteq> 0
        \<and> devices_resize p (device_count p w) \<longrightarrow>
        fst (initVulkan p w)
          = Inr (fst (glfwCreateWindowSurface p (created_instance p w) (mWindow w) (mSurface w))
                   = VK_SUCCESS p)
        \<and> fst (snd (initVulkan p w))
            = w\<lparr>mInstance := created_instance p w,
                mSurface := snd (glfwCreateWindowSurface p (created_instance p w)
                                   (mWindow w) (mSurface w))\<rparr>
        \<and> VkEnumeratePhysicalDevices (created_instance p w) (Some (unat (device_count p w)))
            \<in> set (snd (snd (initVulkan p w)))
        \<and> Log 1 ''%s: Found %u physical device(s)\<newline>''
             [ArgStr (Some ''initVulkan''),
              ArgUInt (unat (fst (vkEnumeratePhysicalDevices_fill p (created_instance p w)
                                    (device_count p w))))]
            \<in> set (snd (snd (initVulkan p w))))
   \<and> fst (initVulkan (p\<lparr>vkEnumeratePhysicalDevices_fill := f\<rparr>) w) = fst (initVulkan p w)
   \<and> fst (snd (initVulkan (p\<lparr>vkEnumeratePhysicalDevices_fill := f\<rparr>) w))
       = fst (snd (initVulkan p w))
   \<and> (device_count p w \<noteq> 0 \<and> devices_resize p (device_count p w)
        \<and> c (created_instance p w) \<noteq> 0 \<and> devices_resize p (c (created_instance p w)) \<longrightarrow>
        fst (initVulkan (p\<lparr>vkEnumeratePhysicalDevices_count := c,
                            vkEnumeratePhysicalDevices_fill := f\<rparr>) w) = fst (initVulkan p w)
        \<and> fst (snd (initVulkan (p\<lparr>vkEnumeratePhysicalDevices_count := c,
                                   vkEnumeratePhysicalDevices_fill := f\<rparr>) w))
            = fst (snd (initVulkan p w)))"
  apply (intro conjI impI)
  subgoal by (auto simp add: enum_defs)
  subgoal by (simp add: enum_defs)
  subgoal by (simp add: enum_defs)
  subgoal by (simp add: enum_defs)
  subgoal by (auto simp add: enum_defs)
  subgoal by (auto simp add: enum_defs)
  subgoal by (simp add: enum_defs)
  subgoal by (simp add: enum_defs)
  subgoal by (simp add: enum_defs)
  subgoal by (auto simp add: enum_defs)
  subgoal by (auto simp add: enum_defs)
  subgoal by (simp add: enum_defs)
  subgoal by (simp add: enum_defs)
  subgoal by (simp add: enum_defs)
  subgoal by (simp add: enum_defs)
  subgoal by (simp add: enum_defs mCreateInfo_enumeration)
  subgoal by (simp add: enum_defs mCreateInfo_enumeration)
  subgoal by (simp add: enum_defs mCreateInfo_enumeration)
  subgoal by (simp add: enum_defs mCreateInfo_enumeration)
  done

text \<open>
  The theorem on \<open>demo_provider\<close> (one device), against a provider that reports five
  devices, on the provider that reports none, and on the one that reports 4294967295.
\<close>

theorem initVulkan_device_enumeration_witness:
  "fst (initVulkan demo_provider (Window_default\<lparr>mWindow := 1\<rparr>)) = Inr True
   \<and> Log 1 ''%s: Found %u physical device(s)\<newline>'' [ArgStr (Some ''initVulkan''), ArgUInt 1]
       \<in> set (snd (snd (initVulkan demo_provider (Window_default\<lparr>mWindow := 1\<rparr>))))
   \<and> fst (initVulkan (demo_provider\<lparr>vkEnumeratePhysicalDevices_count := (\<lambda>inst. 5),
                                     vkEnumeratePhysicalDevices_fill := (\<lambda>inst n. (5, [7, 8]))\<rparr>)
            (Window_default\<lparr>mWindow := 1\<rparr>))
       = fst (initVulkan demo_provider (Window_default\<lparr>mWindow := 1\<rparr>))
   \<and> fst (initVulkan (demo_provider\<lparr>vkEnumeratePhysicalDevices_count := (\<lambda>inst. 0)\<rparr>)
            (Window_default\<lparr>mWindow := 1\<rparr>)) = Inr False
   \<and> fst (initVulkan (demo_provider\<lparr>vkEnumeratePhysicalDevices_count := (\<lambda>inst. 0xFFFFFFFF)\<rparr>)
            (Window_default\<lparr>mWindow := 1\<rparr>)) = Inl bad_alloc
   \<and> GlfwCreateWindowSurface 2 1
       \<notin> set (snd (snd (initVulkan
                          (demo_provider\<lparr>vkEnumeratePhysicalDevices_count := (\<lambda>inst. 0xFFFFFFFF)\<rparr>)
                          (Window_default\<lparr>mWindow := 1\<rparr>))))"
proof -
  let ?w = "Window_default\<lparr>mWindow := 1\<rparr>"
  let ?no_gpu = "demo_provider\<lparr>vkEnumeratePhysicalDevices_count := (\<lambda>inst. 0)\<rparr>"
  let ?huge = "demo_provider\<lparr>vkEnumeratePhysicalDevices_count := (\<lambda>inst. 0xFFFFFFFF)\<rparr>"
  note stmt_defs = instance_created_def created_instance_def device_count_def demo_defs
  have one: "instance_created demo_provider ?w \<and> device_count demo_provider ?w \<noteq> 0
      \<and> devices_resize demo_provider (device_count demo_provider ?w)"
    by (simp add: stmt_defs)
  have five: "device_count demo_provider ?w \<noteq> 0
      \<and> devices_resize demo_provider (device_count demo_provider ?w)
      \<and> (\<lambda>inst. 5 :: 32 word) (created_instance demo_provider ?w) \<noteq> 0
      \<and> devices_resize demo_provider ((\<lambda>inst. 5 :: 32 word) (created_instance demo_provider ?w))"
    by (simp add: stmt_defs)
  have none: "instance_created ?no_gpu ?w \<and> device_count ?no_gpu ?w = 0"
    by (simp add: stmt_defs)
  have huge: "instance_created ?huge ?w \<and> device_count ?huge ?w \<noteq> 0
      \<and> \<not> devices_resize ?huge (device_count ?huge ?w)"
    by (simp add: stmt_defs)
  have surface: "(fst (glfwCreateWindowSurface demo_provider (created_instance demo_provider ?w)
                        (mWindow ?w) (mSurface ?w)) = VK_SUCCESS demo_provider) = True"
    by (simp add: stmt_defs)
  have count: "unat (fst (vkEnumeratePhysicalDevices_fill demo_provider
                            (created_instance demo_provider ?w)
                            (device_count demo_provider ?w))) = 1"
    by (simp add: stmt_defs)
  note A = initVulkan_device_enumeration
    [where p = demo_provider and w = ?w and h = 2 and h' = 1 and n = 0
       and c = "\<lambda>inst. 5" and f = "\<lambda>inst n. (5, [7, 8])"]
  note B = initVulkan_device_enumeration
    [where p = ?no_gpu and w = ?w and h = 2 and h' = 1 and n = 0
       and c = "\<lambda>inst. 5" and f = "\<lambda>inst n. (5, [7, 8])"]
  note C = initVulkan_device_enumeration
    [where p = ?huge and w = ?w and h = 2 and h' = 1 and n = 0
       and c = "\<lambda>inst. 5" and f = "\<lambda>inst n. (5, [7, 8])"]
  have 1: "fst (initVulkan demo_provider ?w)
      = Inr (fst (glfwCreateWindowSurface demo_provider (created_instance demo_provider ?w)
                    (mWindow ?w) (mSurface ?w)) = VK_SUCCESS demo_provider)"
    using A one by blast
  have 2: "Log 1 ''%s: Found %u physical device(s)\<newline>''
             [ArgStr (Some ''initVulkan''),
              ArgUInt (unat (fst (vkEnumeratePhysicalDevices_fill demo_provider
                                    (created_instance demo_provider ?w)
                                    (device_count demo_provider ?w))))]
            \<in> set (snd (snd (initVulkan demo_provider ?w)))"
    using A one by blast
  have 3: "fst (initVulkan (demo_provider\<lparr>vkEnumeratePhysicalDevices_count := (\<lambda>inst. 5),
                                     vkEnumeratePhysicalDevices_fill := (\<lambda>inst n. (5, [7, 8]))\<rparr>) ?w)
       = fst (initVulkan demo_provider ?w)"
    using A five by blast
  have 4: "fst (initVulkan ?no_gpu ?w) = Inr False"
    using B none by blast
  have 5: "fst (initVulkan ?huge ?w) = Inl bad_alloc"
    using C huge by blast
  have 6: "GlfwCreateWindowSurface 2 1 \<notin> set (snd (snd (initVulkan ?huge ?w)))"
    using C huge by blast
  show ?thesis
    using 1 2 3 4 5 6 unfolding surface count by simp
qed

text \<open>
  Claim C2 as stated fails: two providers that differ only in the device count they
  report make \<open>initVulkan\<close> succeed (one device) and fail (no device).
\<close>

theorem initVulkan_device_count_counterexample:
  "fst (initVulkan demo_provider (Window_default\<lparr>mWindow := 1\<rparr>)) = Inr True
   \<and> fst (initVulkan (demo_provider\<lparr>vkEnumeratePhysicalDevices_count := (\<lambda>inst. 0)\<rparr>)
            (Window_default\<lparr>mWindow := 1\<rparr>)) = Inr False"
  by (simp add: initVulkan_def Let_def demo_defs)

section \<open>\<open>cleanup\<close>\<close>

text \<open>
  Claim C3. After a successful \<open>init\<close>, \<open>cleanup\<close> logs that it terminates the window
  and then calls, in this order and nothing else: \<open>vkDestroySurfaceKHR\<close>,
  \<open>vkDestroyInstance\<close>, \<open>glfwDestroyWindow\<close>, \<open>glfwTerminate\<close>, on the handles of the
  session. The window is the one \<open>init\<close> created, it is not null, and the surface was
  created for this instance and this window. \<open>cleanup\<close> leaves the fields as they are.
\<close>

theorem cleanup_after_init_order:
  assumes "fst (init p w0 width height title) = Inr True"
    and "w = fst (snd (init p w0 width height title))"
  shows "snd (cleanup w) =
           [Log 1 ''%s: Terminating Window\<newline>'' [ArgStr (Some ''cleanup'')],
            VkDestroySurfaceKHR (mInstance w) (mSurface w),
            VkDestroyInstance (mInstance w),
            GlfwDestroyWindow (mWindow w),
            GlfwTerminate]
       \<and> filter (\<lambda>c. \<not> is_log c) (snd (cleanup w)) =
           [VkDestroySurfaceKHR (mInstance w) (mSurface w),
            VkDestroyInstance (mInstance w),
            GlfwDestroyWindow (mWindow w),
            GlfwTerminate]
       \<and> fst (cleanup w) = w
       \<and> mWindow w = glfwCreateWindow p (sint width) (sint height) (c_str title)
       \<and> mWindow w \<noteq> 0
       \<and> GlfwCreateWindowSurface (mInstance w) (mWindow w)
           \<in> set (snd (snd (init p w0 width height title)))"
proof -
  let ?w2 = "w0\<lparr>mApplicationName := title,
                mWindow := glfwCreateWindow p (sint width) (sint height) (c_str title)\<rparr>"
  from assms(1) have up: "glfwInit p" "glfwVulkanSupported p" "mWindow ?w2 \<noteq> 0"
    "fst (initVulkan p ?w2) = Inr True"
    by (simp_all add: init_def Let_def split: if_splits sum.splits)
  from up have w: "w = fst (snd (initVulkan p ?w2))"
    by (simp add: assms(2) init_def Let_def)
  have win: "mWindow w = mWindow ?w2"
    by (simp only: w initVulkan_keeps)
  have surf: "GlfwCreateWindowSurface (mInstance w) (mWindow w)
           \<in> set (snd (snd (init p w0 width height title)))"
    using up initVulkan_surface_call[OF up(4)] win
    by (simp add: init_def Let_def w)
  show ?thesis
    using win up(3) surf by (simp add: cleanup_def is_log_def)
qed

text \<open>
  The theorem on the session that \<open>init\<close> builds on \<open>demo_provider\<close>.
\<close>

theorem cleanup_after_init_order_witness:
  "fst (init demo_provider Window_default 800 600 ''demo'') = Inr True
   \<and> filter (\<lambda>c. \<not> is_log c) (snd (cleanup demo_window)) =
       [VkDestroySurfaceKHR 2 3, VkDestroyInstance 2, GlfwDestroyWindow 1, GlfwTerminate]"
proof -
  have ok: "fst (init demo_provider Window_default 800 600 ''demo'') = Inr True"
    by (rule init_demo(1))
  have w: "demo_window = fst (snd (init demo_provider Window_default 800 600 ''demo''))"
    by (simp add: init_demo(2))
  have calls: "filter (\<lambda>c. \<not> is_log c) (snd (cleanup demo_window)) =
      [VkDestroySurfaceKHR (mInstance demo_window) (mSurface demo_window),
       VkDestroyInstance (mInstance demo_window),
       GlfwDestroyWindow (mWindow demo_window),
       GlfwTerminate]"
    using cleanup_after_init_order [OF ok w] by (rule conjunct1 [OF conjunct2])
  have fields: "mWindow demo_window = 1" "mInstance demo_window = 2" "mSurface demo_window = 3"
    by (simp_all add: demo_window_def)
  show ?thesis
    unfolding calls fields using ok by simp
qed

section \<open>\<open>initVulkan\<close> without required extensions\<close>

text \<open>
  Claim C4. If the provider reports no required instance extension, \<open>initVulkan\<close>
  returns failure after the query and one diagnostic: it calls neither
  \<open>vkCreateInstance\<close> nor \<open>glfwCreateWindowSurface\<close>, and the instance and surface
  handles of the session are what they were.
\<close>

theorem initVulkan_no_extensions:
  assumes "glfwGetRequiredInstanceExtensions p = []"
  shows "initVulkan p w =
           (Inr False, w,
            [GlfwGetRequiredInstanceExtensions,
             Log 1 ''%s error: no Vulkan extensions found, need at least 'VK_KHR_surface'\<newline>''
               [ArgStr (Some ''initVulkan'')]])
       \<and> VkCreateInstance info \<notin> set (snd (snd (initVulkan p w)))
       \<and> GlfwCreateWindowSurface inst win \<notin> set (snd (snd (initVulkan p w)))
       \<and> mInstance (fst (snd (initVulkan p w))) = mInstance w
       \<and> mSurface (fst (snd (initVulkan p w))) = mSurface w"
  using assms by (simp add: initVulkan_def)

text \<open>
  The theorem on \<open>demo_provider\<close> with an empty list of extensions.
\<close>

theorem initVulkan_no_extensions_witness:
  "glfwGetRequiredInstanceExtensions (demo_provider\<lparr>glfwGetRequiredInstanceExtensions := []\<rparr>) = []
   \<and> fst (initVulkan (demo_provider\<lparr>glfwGetRequiredInstanceExtensions := []\<rparr>)
            (Window_default\<lparr>mWindow := 1\<rparr>)) = Inr False
   \<and> mInstance (fst (snd (initVulkan (demo_provider\<lparr>glfwGetRequiredInstanceExtensions := []\<rparr>)
            (Window_default\<lparr>mWindow := 1\<rparr>)))) = 0
   \<and> mSurface (fst (snd (initVulkan (demo_provider\<lparr>glfwGetRequiredInstanceExtensions := []\<rparr>)
            (Window_default\<lparr>mWindow := 1\<rparr>)))) = 0"
proof -
  have none: "glfwGetRequiredInstanceExtensions
                (demo_provider\<lparr>glfwGetRequiredInstanceExtensions := []\<rparr>) = []"
    by simp
  show ?thesis
    using none initVulkan_no_extensions [OF none, of "Window_default\<lparr>mWindow := 1\<rparr>"]
    by (simp add: Window_default_def)
qed

section \<open>\<open>init\<close> without support for the rendering API\<close>

text \<open>
  Claim C5. If the provider is initialised and reports that Vulkan is not supported,
  \<open>init\<close> returns failure; its calls are \<open>glfwInit\<close>, \<open>glfwVulkanSupported\<close>, one
  \<open>glfwTerminate\<close> and the diagnostic, so exactly one shutdown call is made and no
  window is created.
\<close>

theorem init_vulkan_unsupported:
  assumes "glfwInit p" and "\<not> glfwVulkanSupported p"
  shows "init p w width height title =
           (Inr False, w,
            [GlfwInit, GlfwVulkanSupported, GlfwTerminate,
             Log 1 ''%s: Vulkan is not supported\<newline>'' [ArgStr (Some ''init'')]])
       \<and> count_list (snd (snd (init p w width height title))) GlfwTerminate = 1
       \<and> GlfwCreateWindow a b c \<notin> set (snd (snd (init p w width height title)))"
  using assms by (simp add: init_def)

text \<open>
  The theorem on \<open>demo_provider\<close> without Vulkan support.
\<close>

theorem init_vulkan_unsupported_witness:
  "glfwInit (demo_provider\<lparr>glfwVulkanSupported := False\<rparr>)
   \<and> \<not> glfwVulkanSupported (demo_provider\<lparr>glfwVulkanSupported := False\<rparr>)
   \<and> init (demo_provider\<lparr>glfwVulkanSupported := False\<rparr>) Window_default 800 600 ''demo'' =
       (Inr False, Window_default,
        [GlfwInit, GlfwVulkanSupported, GlfwTerminate,
         Log 1 ''%s: Vulkan is not supported\<newline>'' [ArgStr (Some ''init'')]])"
proof -
  have a: "glfwInit (demo_provider\<lparr>glfwVulkanSupported := False\<rparr>)"
    by (simp add: demo_provider_def)
  have b: "\<not> glfwVulkanSupported (demo_provider\<lparr>glfwVulkanSupported := False\<rparr>)"
    by simp
  show ?thesis
    using a b init_vulkan_unsupported [OF a b, of Window_default 800 600 "''demo''"]
    by simp
qed

section \<open>The labels of the event handlers\<close>

text \<open>
  Claim C6. A key event whose action is none of \<open>GLFW_PRESS\<close>, \<open>GLFW_RELEASE\<close>,
  \<open>GLFW_REPEAT\<close> is logged by \<open>handleKeyEvents\<close> with the action name \<open>unknown\<close>; a
  mouse-button event whose button is none of the left, middle and right button is
  logged by \<open>handleMouseButtonEvents\<close> with the button name \<open>unknown\<close>, and one whose
  action is neither \<open>GLFW_PRESS\<close> nor \<open>GLFW_RELEASE\<close> with the action name \<open>unknown\<close>,
  whatever the other value is. Both handlers return normally, with the state they
  got.
\<close>

theorem unrecognized_values_logged_unknown:
  "(action \<noteq> GLFW_PRESS p \<and> action \<noteq> GLFW_RELEASE p \<and> action \<noteq> GLFW_REPEAT p \<longrightarrow>
      handleKeyEvents p s key scancode action mods =
        (s, [GlfwGetKeyName key 0,
             Log 1 ''%s: key %s (key %i, scancode %i) %s\<newline>''
               [ArgStr (Some ''handleKeyEvents''), ArgStr (glfwGetKeyName p key 0), ArgInt key,
                ArgInt scancode, ArgStr (Some ''unknown'')]]))
   \<and> (button \<noteq> GLFW_MOUSE_BUTTON_LEFT p \<and> button \<noteq> GLFW_MOUSE_BUTTON_MIDDLE p
        \<and> button \<noteq> GLFW_MOUSE_BUTTON_RIGHT p \<longrightarrow>
      handleMouseButtonEvents p s button action' mods' =
        (s, [Log 1 ''%s: %s mouse button (%i) %s\<newline>''
               [ArgStr (Some ''handleMouseButtonEvents''), ArgStr (Some ''unknown''),
                ArgInt button,
                ArgStr (Some (if action' = GLFW_PRESS p then ''pressed''
                              else if action' = GLFW_RELEASE p then ''released''
                              else ''unknown''))]]))
   \<and> (action' \<noteq> GLFW_PRESS p \<and> action' \<noteq> GLFW_RELEASE p \<longrightarrow>
      handleMouseButtonEvents p s button action' mods' =
        (s, [Log 1 ''%s: %s mouse button (%i) %s\<newline>''
               [ArgStr (Some ''handleMouseButtonEvents''),
                ArgStr (Some (if button = GLFW_MOUSE_BUTTON_LEFT p then ''left''
                              else if button = GLFW_MOUSE_BUTTON_MIDDLE p then ''middle''
                              else if button = GLFW_MOUSE_BUTTON_RIGHT p then ''right''
                              else ''unknown'')),
                ArgInt button, ArgStr (Some ''unknown'')]]))"
  by (simp add: handleKeyEvents_def handleMouseButtonEvents_def c_str_literals)

text \<open>
  The theorem on the action 7 and the button 5, which \<open>glfw3.h\<close> does not define,
  and on the action 7 with the left button.
\<close>

theorem unrecognized_values_logged_unknown_witness:
  "handleKeyEvents demo_provider (demo_window, demo_world) 65 38 7 0 =
     ((demo_window, demo_world),
      [GlfwGetKeyName 65 0,
       Log 1 ''%s: key %s (key %i, scancode %i) %s\<newline>''
         [ArgStr (Some ''handleKeyEvents''), ArgStr (Some ''a''), ArgInt 65,
          ArgInt 38, ArgStr (Some ''unknown'')]])
   \<and> handleMouseButtonEvents demo_provider (demo_window, demo_world) 5 1 0 =
     ((demo_window, demo_world),
      [Log 1 ''%s: %s mouse button (%i) %s\<newline>''
         [ArgStr (Some ''handleMouseButtonEvents''), ArgStr (Some ''unknown''),
          ArgInt 5, ArgStr (Some ''pressed'')]])
   \<and> handleMouseButtonEvents demo_provider (demo_window, demo_world) 0 7 0 =
     ((demo_window, demo_world),
      [Log 1 ''%s: %s mouse button (%i) %s\<newline>''
         [ArgStr (Some ''handleMouseButtonEvents''), ArgStr (Some ''left''),
          ArgInt 0, ArgStr (Some ''unknown'')]])"
  using unrecognized_values_logged_unknown
          [of 7 demo_provider "(demo_window, demo_world)" 65 38 0 5 1 0]
        unrecognized_values_logged_unknown
          [of 7 demo_provider "(demo_window, demo_world)" 65 38 0 0 7 0]
  by (simp add: demo_provider_def)

section \<open>\<open>mainLoop\<close>\<close>

text \<open>
  Claim C7. If the close flag is set after \<open>n\<close> polls and not after fewer, \<open>mainLoop\<close>
  returns, having made exactly \<open>n\<close> iterations (each one the test of the flag, the
  poll, and the callbacks of all events pending at that poll, in delivery order)
  followed by the test that finds the flag set; the session is unchanged. If the close
  flag is never set, \<open>mainLoop\<close> does not return.
\<close>

theorem mainLoop_returns_when_closed:
  "(closed_after p wd n \<and> (\<forall>k<n. \<not> closed_after p wd k) \<longrightarrow>
      mainLoop p (w, wd) =
        Some ((w, world_after p wd n),
              concat (map (poll_calls p w wd) [0..<n]) @ [GlfwWindowShouldClose (mWindow w)]))
   \<and> ((\<forall>k. \<not> closed_after p wd k) \<longrightarrow> mainLoop p (w, wd) = None)"
proof (intro conjI impI)
  assume "closed_after p wd n \<and> (\<forall>k<n. \<not> closed_after p wd k)"
  then show "mainLoop p (w, wd) =
        Some ((w, world_after p wd n),
              concat (map (poll_calls p w wd) [0..<n]) @ [GlfwWindowShouldClose (mWindow w)])"
    using loop_returns[of p wd n w "[]"] by (simp add: mainLoop_def)
next
  assume never: "\<forall>k. \<not> closed_after p wd k"
  show "mainLoop p (w, wd) = None"
  proof (cases "mainLoop p (w, wd)")
    case None
    then show ?thesis .
  next
    case (Some r)
    then have "\<exists>k. closed_after p (snd (w, wd)) k"
      unfolding mainLoop_def by (rule loop_some_closed)
    with never show ?thesis by simp
  qed
qed

text \<open>
  The theorem on \<open>demo_provider\<close>, whose second poll delivers a mouse-button event and
  the close event and sets the flag, and on a provider that never sets the flag.
\<close>

theorem mainLoop_returns_when_closed_witness:
  "mainLoop demo_provider (demo_window, demo_world) =
     Some ((demo_window, \<lparr>closeFlag = True, pollCount = 2\<rparr>),
           [GlfwWindowShouldClose 1, GlfwPollEvents,
            GlfwGetWindowUserPointer 1, GlfwGetKeyName 65 0,
            Log 1 ''%s: key %s (key %i, scancode %i) %s\<newline>''
              [ArgStr (Some ''handleKeyEvents''), ArgStr (Some ''a''), ArgInt 65,
               ArgInt 38, ArgStr (Some ''pressed'')],
            GlfwWindowShouldClose 1, GlfwPollEvents,
            GlfwGetWindowUserPointer 1,
            Log 1 ''%s: %s mouse button (%i) %s\<newline>''
              [ArgStr (Some ''handleMouseButtonEvents''), ArgStr (Some ''left''),
               ArgInt 0, ArgStr (Some ''pressed'')],
            GlfwGetWindowUserPointer 1,
            Log 1 ''%s: Window close event... bye!\<newline>''
              [ArgStr (Some ''handleWindowCloseEvents'')],
            GlfwWindowShouldClose 1])
   \<and> mainLoop (demo_provider\<lparr>pendingEvents := (\<lambda>k. ([], False))\<rparr>) (demo_window, demo_world)
       = None"
proof -
  have closed: "closed_after demo_provider demo_world 2"
    unfolding closed_after_def
    by (rule disjI2, rule exI [of _ 1]) (simp add: demo_defs)
  have "\<forall>k<2. \<not> closed_after demo_provider demo_world k"
    by (auto simp add: closed_after_def demo_defs less_2_cases_iff)
  with closed have closes: "closed_after demo_provider demo_world 2
      \<and> (\<forall>k<2. \<not> closed_after demo_provider demo_world k)" ..
  have never: "\<forall>k. \<not> closed_after (demo_provider\<lparr>pendingEvents := (\<lambda>k. ([], False))\<rparr>) demo_world k"
    by (simp add: closed_after_def demo_defs)
  have upt: "[0..<2] = [0, Suc 0]"
    by (simp add: upt_rec)
  have first: "poll_calls demo_provider demo_window demo_world 0 =
      [GlfwWindowShouldClose 1, GlfwPollEvents,
       GlfwGetWindowUserPointer 1, GlfwGetKeyName 65 0,
       Log 1 ''%s: key %s (key %i, scancode %i) %s\<newline>''
         [ArgStr (Some ''handleKeyEvents''), ArgStr (Some ''a''), ArgInt 65,
          ArgInt 38, ArgStr (Some ''pressed'')]]"
    by (simp add: poll_calls_def demo_defs handleKeyEvents_def c_str_literals)
  have second: "poll_calls demo_provider demo_window demo_world (Suc 0) =
      [GlfwWindowShouldClose 1, GlfwPollEvents,
       GlfwGetWindowUserPointer 1,
       Log 1 ''%s: %s mouse button (%i) %s\<newline>''
         [ArgStr (Some ''handleMouseButtonEvents''), ArgStr (Some ''left''),
          ArgInt 0, ArgStr (Some ''pressed'')],
       GlfwGetWindowUserPointer 1,
       Log 1 ''%s: Window close event... bye!\<newline>''
         [ArgStr (Some ''handleWindowCloseEvents'')]]"
    by (simp add: poll_calls_def demo_defs handleMouseButtonEvents_def
        handleWindowCloseEvents_def c_str_literals)
  have after: "world_after demo_provider demo_world 2 = \<lparr>closeFlag = True, pollCount = 2\<rparr>"
    using closes by (simp add: world_after_def demo_world_def)
  have win: "mWindow demo_window = 1"
    by (simp add: demo_window_def)
  show ?thesis
    using closes never
      mainLoop_returns_when_closed [of demo_provider demo_world 2 demo_window]
      mainLoop_returns_when_closed
        [of "demo_provider\<lparr>pendingEvents := (\<lambda>k. ([], False))\<rparr>" demo_world 0 demo_window]
    by (simp add: upt first second after win)
qed

section \<open>The handlers change nothing\<close>

text \<open>
  Claim C8. Each of the three handlers returns the session (all four fields) and the
  provider state (the close flag) it was given, for all arguments. Each makes exactly
  one call on the logging sink; the only other call is the key-name query of
  \<open>handleKeyEvents\<close>.
\<close>

theorem handlers_change_nothing:
  "fst (handleWindowCloseEvents (w, wd)) = (w, wd)
   \<and> fst (handleKeyEvents p (w, wd) key scancode action mods) = (w, wd)
   \<and> fst (handleMouseButtonEvents p (w, wd) button action' mods') = (w, wd)
   \<and> length (filter is_log (snd (handleWindowCloseEvents (w, wd)))) = 1
   \<and> filter (\<lambda>c. \<not> is_log c) (snd (handleWindowCloseEvents (w, wd))) = []
   \<and> length (filter is_log (snd (handleKeyEvents p (w, wd) key scancode action mods))) = 1
   \<and> filter (\<lambda>c. \<not> is_log c) (snd (handleKeyEvents p (w, wd) key scancode action mods))
       = [GlfwGetKeyName key 0]
   \<and> length (filter is_log (snd (handleMouseButtonEvents p (w, wd) button action' mods'))) = 1
   \<and> filter (\<lambda>c. \<not> is_log c) (snd (handleMouseButtonEvents p (w, wd) button action' mods')) = []"
  by (simp add: handleWindowCloseEvents_def handleKeyEvents_def handleMouseButtonEvents_def
      Let_def is_log_def)

section \<open>Early failures of \<open>init\<close>\<close>

text \<open>
  Claim C9. If \<open>glfwInit\<close> fails or Vulkan is not supported, \<open>init\<close> returns failure and
  the session is unchanged; from the default session, the three handles are still
  null and the application name is still empty. Once both checks pass, the
  application name is the title.
\<close>

theorem init_early_failure_keeps_fields:
  "(\<not> glfwInit p \<or> \<not> glfwVulkanSupported p \<longrightarrow>
      fst (init p w width height title) = Inr False
      \<and> fst (snd (init p w width height title)) = w
      \<and> mWindow (fst (snd (init p Window_default width height title))) = 0
      \<and> mInstance (fst (snd (init p Window_default width height title))) = 0
      \<and> mSurface (fst (snd (init p Window_default width height title))) = 0
      \<and> mApplicationName (fst (snd (init p Window_default width height title))) = [])
   \<and> (glfwInit p \<and> glfwVulkanSupported p \<longrightarrow>
      mApplicationName (fst (snd (init p w width height title))) = title)"
  by (auto simp add: init_def Let_def initVulkan_keeps Window_default_def split: sum.splits)

text \<open>
  The theorem on \<open>demo_provider\<close> with a failing \<open>glfwInit\<close>, without Vulkan support, and
  as it is.
\<close>

theorem init_early_failure_keeps_fields_witness:
  "fst (snd (init (demo_provider\<lparr>glfwInit := False\<rparr>) Window_default 800 600 ''demo''))
     = Window_default
   \<and> fst (snd (init (demo_provider\<lparr>glfwVulkanSupported := False\<rparr>) Window_default 800 600 ''demo''))
     = Window_default
   \<and> mApplicationName (fst (snd (init demo_provider Window_default 800 600 ''demo''))) = ''demo''"
  using init_early_failure_keeps_fields
          [of "demo_provider\<lparr>glfwInit := False\<rparr>" Window_default 800 600 "''demo''"]
        init_early_failure_keeps_fields
          [of "demo_provider\<lparr>glfwVulkanSupported := False\<rparr>" Window_default 800 600 "''demo''"]
        init_early_failure_keeps_fields
          [of demo_provider Window_default 800 600 "''demo''"]
  by (simp add: demo_provider_def)

section \<open>The key name\<close>

text \<open>
  Claim C10. \<open>handleKeyEvents\<close> passes to the logging sink, as key name, exactly what
  \<open>glfwGetKeyName\<close> returned for the key and scancode 0. When that is the null
  pointer, the key name logged is the null pointer; only the action name can be
  \<open>unknown\<close>.
\<close>

theorem key_name_logged_as_returned:
  "snd (handleKeyEvents p s key scancode action mods) =
     [GlfwGetKeyName key 0,
      Log 1 ''%s: key %s (key %i, scancode %i) %s\<newline>''
        [ArgStr (Some ''handleKeyEvents''), ArgStr (glfwGetKeyName p key 0), ArgInt key,
         ArgInt scancode,
         ArgStr (Some (if action = GLFW_PRESS p then ''pressed''
                       else if action = GLFW_RELEASE p then ''released''
                       else if action = GLFW_REPEAT p then ''repeated''
                       else ''unknown''))]]
   \<and> (glfwGetKeyName p key 0 = None \<longrightarrow>
        (\<exists>name. snd (handleKeyEvents p s key scancode action mods) =
           [GlfwGetKeyName key 0,
            Log 1 ''%s: key %s (key %i, scancode %i) %s\<newline>''
              [ArgStr (Some ''handleKeyEvents''), ArgStr None, ArgInt key,
               ArgInt scancode, ArgStr (Some name)]]))"
  by (simp add: handleKeyEvents_def c_str_literals)

text \<open>
  The theorem on the key 256, for which \<open>demo_provider\<close> has no name.
\<close>

theorem key_name_logged_as_returned_witness:
  "glfwGetKeyName demo_provider 256 0 = None
   \<and> snd (handleKeyEvents demo_provider (demo_window, demo_world) 256 9 1 0) =
       [GlfwGetKeyName 256 0,
        Log 1 ''%s: key %s (key %i, scancode %i) %s\<newline>''
          [ArgStr (Some ''handleKeyEvents''), ArgStr None, ArgInt 256,
           ArgInt 9, ArgStr (Some ''pressed'')]]"
  using key_name_logged_as_returned [of demo_provider "(demo_window, demo_world)" 256 9 1 0]
  by (simp add: demo_provider_def)

end
